theory Spec2Isabelle
  imports Main
begin

section \<open>Data model\<close>

text \<open>
  The row of table \<open>orders\<close> as the database returns it (\<open>data\<close> in \<open>addOrder\<close>), and the
  column values \<open>addOrder\<close> sends to the insert (\<open>snakeCaseData\<close>). Every field of one record
  carries the same suffix, since a field name is a constant of the theory and the source
  uses the same names in several objects.
\<close>

record OrderInsert =
  customer_name_ins :: string
  customer_email_ins :: string
  project_id_ins :: string
  project_title_ins :: string
  price_ins :: int
  status_ins :: string

record OrderRow =
  id_row :: string
  customer_name_row :: string
  customer_email_row :: string
  project_id_row :: string
  project_title_row :: string
  price_row :: int
  status_row :: string
  created_at_row :: string
  updated_at_row :: string

text \<open>
  An order of the in-memory \<open>orders\<close> state: the row spread (\<open>...data\<close>) together with the
  camelCase copies that \<open>fetchOrders\<close> and \<open>addOrder\<close> add.
\<close>

record Order =
  id_order :: string
  customer_name :: string
  customer_email :: string
  project_id :: string
  project_title :: string
  price :: int
  status :: string
  created_at :: string
  updated_at :: string
  projectId :: string
  customerName :: string
  customerEmail :: string
  projectTitle :: string
  createdAt :: string
  updatedAt :: string

text \<open>The argument of \<open>addOrder\<close>: an order without \<open>id\<close>, \<open>created_at\<close>, \<open>updated_at\<close>.\<close>

record NewOrder =
  customerName_new :: string
  customerEmail_new :: string
  projectId_new :: string
  projectTitle_new :: string
  price_new :: int
  status_new :: string

record ProjectDocument =
  id_doc :: string
  project_id_doc :: string
  name_doc :: string
  url_doc :: string
  document_category :: string
  review_stage_doc :: string
  size_doc :: nat
  is_active :: bool
  created_at_doc :: string
  updated_at_doc :: string

text \<open>One entry of the manifest (\<open>formattedDocuments\<close>) and the payload of the notifier.\<close>

record FormattedDocument =
  name_fd :: string
  url_fd :: string
  category_fd :: string
  review_stage_fd :: string
  size_fd :: nat

record DeliveryPayload =
  project_title_pl :: string
  customer_name_pl :: string
  customer_email_pl :: string
  order_id_pl :: string
  documents_pl :: "FormattedDocument list"
  access_expires_pl :: string

text \<open>The derived record of the admin page (\<open>interface DocumentStatus\<close>).\<close>

datatype Classification = delivered | pending | no_documents | partial

record ReviewStages =
  review_1 :: nat
  review_2 :: nat
  review_3 :: nat

record DocumentStatus =
  orderId_ds :: string
  customerName_ds :: string
  customerEmail_ds :: string
  projectTitle_ds :: string
  orderDate_ds :: string
  status_ds :: Classification
  documentsCount :: nat
  reviewStages :: ReviewStages
  lastDeliveryDate :: "string option"

section \<open>Document queries (ProjectContext.tsx)\<close>

definition getProjectDocuments :: "ProjectDocument list \<Rightarrow> string \<Rightarrow> ProjectDocument list" where
  "getProjectDocuments docs pid =
     filter (\<lambda>doc. project_id_doc doc = pid \<and> is_active doc) docs"

definition getDocumentsByReviewStage ::
  "ProjectDocument list \<Rightarrow> string \<Rightarrow> string \<Rightarrow> ProjectDocument list" where
  "getDocumentsByReviewStage docs pid reviewStage =
     filter (\<lambda>doc. project_id_doc doc = pid \<and> review_stage_doc doc = reviewStage \<and> is_active doc)
       docs"

section \<open>Status aggregation (AdminDocumentStatusPage)\<close>

text \<open>JavaScript's \<open>a || b\<close> on strings: the empty string is falsy.\<close>

definition js_or :: "string \<Rightarrow> string \<Rightarrow> string" where
  "js_or a b = (if a \<noteq> [] then a else b)"

text \<open>The body of the \<open>orders.map\<close> callback of \<open>documentStatuses\<close>, for one order.\<close>

definition documentStatus :: "ProjectDocument list \<Rightarrow> Order \<Rightarrow> DocumentStatus" where
  "documentStatus docs order =
     (let documents = getProjectDocuments docs (projectId order);
          totalDocuments = length documents;
          stages = \<lparr> review_1 = length (filter (\<lambda>doc. review_stage_doc doc = ''review_1'') documents),
                     review_2 = length (filter (\<lambda>doc. review_stage_doc doc = ''review_2'') documents),
                     review_3 = length (filter (\<lambda>doc. review_stage_doc doc = ''review_3'') documents) \<rparr>;
          st = (if totalDocuments = 0 then no_documents
                else if status order = ''completed'' \<and> totalDocuments > 0 then delivered
                else if totalDocuments > 0 \<and> status order = ''pending'' then pending
                else partial)
      in \<lparr> orderId_ds = id_order order,
           customerName_ds = js_or (customer_name order) (customerName order),
           customerEmail_ds = js_or (customer_email order) (customerEmail order),
           projectTitle_ds = js_or (project_title order) (projectTitle order),
           orderDate_ds = js_or (js_or (created_at order) (createdAt order)) [],
           status_ds = st,
           documentsCount = totalDocuments,
           reviewStages = stages,
           lastDeliveryDate =
             (if st = delivered then Some (js_or (updated_at order) (updatedAt order)) else None) \<rparr>)"

definition documentStatuses :: "Order list \<Rightarrow> ProjectDocument list \<Rightarrow> DocumentStatus list" where
  "documentStatuses os docs = map (documentStatus docs) os"

text \<open>
  The classification in the words of the specification: \<open>no-documents\<close> if zero active
  documents exist; else \<open>delivered\<close> if the order status is "completed"; else \<open>pending\<close> if
  it is "pending"; else \<open>partial\<close>.
\<close>

definition spec_classification :: "string \<Rightarrow> nat \<Rightarrow> Classification" where
  "spec_classification order_status active_count =
     (if active_count = 0 then no_documents
      else if order_status = ''completed'' then delivered
      else if order_status = ''pending'' then pending
      else partial)"

section \<open>Orders, documents and the delivery notifier (ProjectContext.tsx)\<close>

text \<open>
  The React state the functions read and write, and the trace of the calls made to the
  external \<open>sendDocumentDelivery\<close> (one payload per call, oldest first). The database and the
  notifier are outside the program: the insert is a function from the inserted columns to
  an error or the stored row, the update and the soft delete return an error or nothing,
  and the notifier maps a payload to \<open>None\<close> (the promise resolves) or to the value it throws.
\<close>

record AppState =
  orders :: "Order list"
  projectDocuments :: "ProjectDocument list"
  sent :: "DeliveryPayload list"

text \<open>
  What a call can throw, by the place that throws it: the database error rethrown by
  \<open>addOrder\<close>, \<open>new Error('Order not found')\<close>, and whatever the notifier threw.
\<close>

datatype 'e error = InsertFailed 'e | OrderNotFound | NotifierFailed 'e

definition snakeCaseData :: "NewOrder \<Rightarrow> OrderInsert" where
  "snakeCaseData order =
     \<lparr> customer_name_ins = customerName_new order,
       customer_email_ins = customerEmail_new order,
       project_id_ins = projectId_new order,
       project_title_ins = projectTitle_new order,
       price_ins = price_new order,
       status_ins = status_new order \<rparr>"

definition convertedOrder :: "OrderRow \<Rightarrow> Order" where
  "convertedOrder data =
     \<lparr> id_order = id_row data,
       customer_name = customer_name_row data,
       customer_email = customer_email_row data,
       project_id = project_id_row data,
       project_title = project_title_row data,
       price = price_row data,
       status = status_row data,
       created_at = created_at_row data,
       updated_at = updated_at_row data,
       projectId = project_id_row data,
       customerName = customer_name_row data,
       customerEmail = customer_email_row data,
       projectTitle = project_title_row data,
       createdAt = created_at_row data,
       updatedAt = updated_at_row data \<rparr>"

text \<open>The callback of \<open>documents.map\<close> and the object literal passed to the notifier.\<close>

definition formatDocument :: "ProjectDocument \<Rightarrow> FormattedDocument" where
  "formatDocument doc =
     \<lparr> name_fd = name_doc doc,
       url_fd = url_doc doc,
       category_fd = document_category doc,
       review_stage_fd = review_stage_doc doc,
       size_fd = size_doc doc \<rparr>"

definition deliveryPayload ::
  "ProjectDocument list \<Rightarrow> Order \<Rightarrow> string \<Rightarrow> string \<Rightarrow> DeliveryPayload" where
  "deliveryPayload docs order email cname =
     (let documents = getProjectDocuments docs (projectId order);
          formattedDocuments = map formatDocument documents
      in \<lparr> project_title_pl = projectTitle order,
           customer_name_pl = cname,
           customer_email_pl = email,
           order_id_pl = id_order order,
           documents_pl = formattedDocuments,
           access_expires_pl = ''Never (lifetime access)'' \<rparr>)"

text \<open>
  \<open>sendProjectDocumentsForOrder\<close>: build the payload, call the notifier once, rethrow what
  it throws.
\<close>

definition sendProjectDocumentsForOrder ::
  "(DeliveryPayload \<Rightarrow> 'e option) \<Rightarrow> AppState \<Rightarrow> Order \<Rightarrow> string \<Rightarrow> string
     \<Rightarrow> ('e error + unit) \<times> AppState" where
  "sendProjectDocumentsForOrder sendDocumentDelivery s order email cname =
     (let pl = deliveryPayload (projectDocuments s) order email cname;
          s' = s\<lparr> sent := sent s @ [pl] \<rparr>
      in case sendDocumentDelivery pl of
           None \<Rightarrow> (Inr (), s')
         | Some e \<Rightarrow> (Inl (NotifierFailed e), s'))"

definition sendProjectDocuments ::
  "(DeliveryPayload \<Rightarrow> 'e option) \<Rightarrow> AppState \<Rightarrow> string \<Rightarrow> string \<Rightarrow> string
     \<Rightarrow> ('e error + unit) \<times> AppState" where
  "sendProjectDocuments sendDocumentDelivery s oid email cname =
     (case find (\<lambda>ord. id_order ord = oid) (orders s) of
        None \<Rightarrow> (Inl OrderNotFound, s)
      | Some order \<Rightarrow> sendProjectDocumentsForOrder sendDocumentDelivery s order email cname)"

text \<open>
  \<open>addOrder\<close>: a failed insert is rethrown before anything else happens; after a successful
  one the order is appended to the state, the notifier is tried, and its error is caught.
\<close>

definition addOrder ::
  "(OrderInsert \<Rightarrow> 'e + OrderRow) \<Rightarrow> (DeliveryPayload \<Rightarrow> 'e option) \<Rightarrow> AppState \<Rightarrow> NewOrder
     \<Rightarrow> ('e error + Order) \<times> AppState" where
  "addOrder insert_row sendDocumentDelivery s order =
     (case insert_row (snakeCaseData order) of
        Inl err \<Rightarrow> (Inl (InsertFailed err), s)
      | Inr data \<Rightarrow>
          (let co = convertedOrder data;
               s1 = s\<lparr> orders := orders s @ [co] \<rparr>;
               (r, s2) = sendProjectDocumentsForOrder sendDocumentDelivery s1 co
                           (customerEmail_new order) (customerName_new order)
           in case r of
                Inl emailError \<Rightarrow> (Inr co, s2)
              | Inr u \<Rightarrow> (Inr co, s2)))"

text \<open>
  \<open>updateOrderStatus\<close> and \<open>deleteProjectDocument\<close>: a database error is logged and the state
  is left as it is; neither throws.
\<close>

definition updateOrderStatus ::
  "(string \<Rightarrow> string \<Rightarrow> 'e option) \<Rightarrow> AppState \<Rightarrow> string \<Rightarrow> string \<Rightarrow> AppState" where
  "updateOrderStatus update_row s oid new_status =
     (case update_row oid new_status of
        Some err \<Rightarrow> s
      | None \<Rightarrow>
          s\<lparr> orders := map (\<lambda>order. if id_order order = oid
                                     then order\<lparr> status := new_status \<rparr>
                                     else order) (orders s) \<rparr>)"

definition deleteProjectDocument :: "(string \<Rightarrow> 'e option) \<Rightarrow> AppState \<Rightarrow> string \<Rightarrow> AppState" where
  "deleteProjectDocument deactivate_row s did =
     (case deactivate_row did of
        Some err \<Rightarrow> s
      | None \<Rightarrow> s\<lparr> projectDocuments := filter (\<lambda>doc. id_doc doc \<noteq> did) (projectDocuments s) \<rparr>)"

section \<open>A concrete state\<close>

text \<open>
  Four documents (two active ones of project \<open>p1\<close>, a soft-deleted one of \<open>p1\<close>, an active
  one of \<open>p2\<close>), two stored orders, a new order and the row the database returns for it.
\<close>

definition ex_doc1 :: ProjectDocument where
  "ex_doc1 = \<lparr> id_doc = ''d1'', project_id_doc = ''p1'', name_doc = ''a.pdf'',
               url_doc = ''https://files/a.pdf'', document_category = ''report'',
               review_stage_doc = ''review_1'', size_doc = 1024, is_active = True,
               created_at_doc = ''2025-06-16'', updated_at_doc = ''2025-06-16'' \<rparr>"

definition ex_doc2 :: ProjectDocument where
  "ex_doc2 = \<lparr> id_doc = ''d2'', project_id_doc = ''p1'', name_doc = ''b.pdf'',
               url_doc = ''https://files/b.pdf'', document_category = ''slides'',
               review_stage_doc = ''review_2'', size_doc = 2048, is_active = True,
               created_at_doc = ''2025-06-16'', updated_at_doc = ''2025-06-17'' \<rparr>"

definition ex_doc3 :: ProjectDocument where
  "ex_doc3 = \<lparr> id_doc = ''d3'', project_id_doc = ''p1'', name_doc = ''c.pdf'',
               url_doc = ''https://files/c.pdf'', document_category = ''report'',
               review_stage_doc = ''review_3'', size_doc = 512, is_active = False,
               created_at_doc = ''2025-06-16'', updated_at_doc = ''2025-06-17'' \<rparr>"

definition ex_doc4 :: ProjectDocument where
  "ex_doc4 = \<lparr> id_doc = ''d4'', project_id_doc = ''p2'', name_doc = ''d.pdf'',
               url_doc = ''https://files/d.pdf'', document_category = ''code'',
               review_stage_doc = ''review_3'', size_doc = 4096, is_active = True,
               created_at_doc = ''2025-06-17'', updated_at_doc = ''2025-06-17'' \<rparr>"

definition ex_docs :: "ProjectDocument list" where
  "ex_docs = [ex_doc1, ex_doc2, ex_doc3, ex_doc4]"

definition ex_order1 :: Order where
  "ex_order1 = \<lparr> id_order = ''o1'', customer_name = ''Bo'', customer_email = ''bo@example.org'',
                 project_id = ''p2'', project_title = ''Second'', price = 20,
                 status = ''completed'', created_at = ''2025-06-16'', updated_at = ''2025-06-17'',
                 projectId = ''p2'', customerName = ''Bo'', customerEmail = ''bo@example.org'',
                 projectTitle = ''Second'', createdAt = ''2025-06-16'', updatedAt = ''2025-06-17'' \<rparr>"

definition ex_order3 :: Order where
  "ex_order3 = \<lparr> id_order = ''o3'', customer_name = ''Cy'', customer_email = ''cy@example.org'',
                 project_id = ''p1'', project_title = ''First'', price = 10,
                 status = ''completed'', created_at = ''2025-06-15'', updated_at = ''2025-06-15'',
                 projectId = ''p1'', customerName = ''Cy'', customerEmail = ''cy@example.org'',
                 projectTitle = ''First'', createdAt = ''2025-06-15'', updatedAt = ''2025-06-15'' \<rparr>"

definition ex_new :: NewOrder where
  "ex_new = \<lparr> customerName_new = ''Ada'', customerEmail_new = ''ada@example.org'',
              projectId_new = ''p1'', projectTitle_new = ''First'', price_new = 10,
              status_new = ''pending'' \<rparr>"

definition ex_row :: OrderRow where
  "ex_row = \<lparr> id_row = ''o2'', customer_name_row = ''Ada'', customer_email_row = ''ada@example.org'',
              project_id_row = ''p1'', project_title_row = ''First'', price_row = 10,
              status_row = ''pending'', created_at_row = ''2025-06-18'',
              updated_at_row = ''2025-06-18'' \<rparr>"

definition ex_state :: AppState where
  "ex_state = \<lparr> orders = [ex_order1, ex_order3], projectDocuments = ex_docs, sent = [] \<rparr>"

lemmas ex_defs = ex_doc1_def ex_doc2_def ex_doc3_def ex_doc4_def ex_docs_def ex_order1_def
  ex_order3_def ex_new_def ex_row_def ex_state_def

lemmas model_defs = getProjectDocuments_def documentStatus_def documentStatuses_def
  snakeCaseData_def convertedOrder_def formatDocument_def deliveryPayload_def
  sendProjectDocumentsForOrder_def sendProjectDocuments_def addOrder_def updateOrderStatus_def
  deleteProjectDocument_def js_or_def spec_classification_def

section \<open>Auxiliary facts\<close>

lemma status_ds_documentStatus:
  "status_ds (documentStatus docs order) =
     spec_classification (status order) (length (getProjectDocuments docs (projectId order)))"
  by (simp add: documentStatus_def spec_classification_def Let_def)

lemma stage_counts_sum:
  "(\<forall>d \<in> set xs. review_stage_doc d = ''review_1'' \<or> review_stage_doc d = ''review_2''
        \<or> review_stage_doc d = ''review_3'') \<Longrightarrow>
   length (filter (\<lambda>doc. review_stage_doc doc = ''review_1'') xs)
   + length (filter (\<lambda>doc. review_stage_doc doc = ''review_2'') xs)
   + length (filter (\<lambda>doc. review_stage_doc doc = ''review_3'') xs) = length xs"
proof (induction xs)
  case Nil
  show ?case by simp
next
  case (Cons d xs)
  then show ?case by auto
qed

lemma count_list_filter_if:
  "count_list (filter P xs) x = (if P x then count_list xs x else 0)"
  by (induction xs) auto

lemma getProjectDocuments_drop_inactive:
  "\<not> is_active d \<Longrightarrow> getProjectDocuments (xs @ d # ys) pid = getProjectDocuments (xs @ ys) pid"
  by (simp add: getProjectDocuments_def)

lemma find_append_fresh:
  "\<forall>x \<in> set xs. \<not> P x \<Longrightarrow> P y \<Longrightarrow> find P (xs @ [y]) = Some y"
  by (induction xs) auto

lemma addOrder_inserted_state:
  "insert_row (snakeCaseData new) = Inr data \<Longrightarrow>
   snd (addOrder insert_row sendDocumentDelivery s new) =
     s\<lparr> orders := orders s @ [convertedOrder data],
        sent := sent s @ [deliveryPayload (projectDocuments s) (convertedOrder data)
                            (customerEmail_new new) (customerName_new new)] \<rparr>"
  by (simp add: addOrder_def sendProjectDocumentsForOrder_def Let_def split: option.split)

lemma sendProjectDocuments_found:
  "find (\<lambda>ord. id_order ord = oid) (orders s) = Some order \<Longrightarrow>
   sendProjectDocuments sendDocumentDelivery s oid email cname =
     sendProjectDocumentsForOrder sendDocumentDelivery s order email cname"
  by (simp add: sendProjectDocuments_def)

lemma sendProjectDocumentsForOrder_sent:
  "sent (snd (sendProjectDocumentsForOrder sendDocumentDelivery s order email cname)) =
     sent s @ [deliveryPayload (projectDocuments s) order email cname]"
  by (simp add: sendProjectDocumentsForOrder_def Let_def split: option.split)

section \<open>The classification function\<close>

text \<open>
  Claim C1. For every order, the derived document status follows from the order's lifecycle
  status and the active documents of the order's project: \<open>no-documents\<close> if there are none;
  otherwise \<open>delivered\<close> if the order's status is "completed"; otherwise \<open>pending\<close> if it is
  "pending"; otherwise \<open>partial\<close>. The same holds for every entry of \<open>documentStatuses\<close>.
\<close>

theorem classification_as_specified:
  "status_ds (documentStatus docs order) =
     spec_classification (status order)
       (length (filter (\<lambda>d. project_id_doc d = projectId order \<and> is_active d) docs))
   \<and> map status_ds (documentStatuses os docs) =
     map (\<lambda>order. spec_classification (status order)
            (length (filter (\<lambda>d. project_id_doc d = projectId order \<and> is_active d) docs)))
       os"
  by (simp add: documentStatuses_def documentStatus_def getProjectDocuments_def
      spec_classification_def Let_def)

text \<open>The statement at the concrete state.\<close>

theorem classification_as_specified_witness:
  "map status_ds (documentStatuses [ex_order1, ex_order3, convertedOrder ex_row] ex_docs) =
     [delivered, delivered, pending]
   \<and> status_ds (documentStatus [ex_doc3] ex_order3) = no_documents
   \<and> status_ds (documentStatus ex_docs (ex_order3\<lparr> status := ''processing'' \<rparr>)) = partial"
  using classification_as_specified [of ex_docs ex_order1 "[ex_order1, ex_order3, convertedOrder ex_row]"]
    classification_as_specified [of "[ex_doc3]" ex_order3 "[]"]
    classification_as_specified [of ex_docs "ex_order3\<lparr> status := ''processing'' \<rparr>" "[]"]
  by (simp add: ex_defs spec_classification_def convertedOrder_def)

section \<open>The delivery notifier\<close>

text \<open>
  Claim C2. When the database insert of \<open>addOrder\<close> succeeds, the external notification call
  is made exactly once for the new order: the trace of calls grows by one payload, the one
  built for the inserted order, whatever documents the project has. When the insert fails,
  no call is made.
\<close>

theorem addOrder_notifies_once:
  "(insert_row (snakeCaseData order) = Inr data \<longrightarrow>
      sent (snd (addOrder insert_row sendDocumentDelivery s order)) =
        sent s @ [deliveryPayload (projectDocuments s) (convertedOrder data)
                    (customerEmail_new order) (customerName_new order)]
      \<and> length (sent (snd (addOrder insert_row sendDocumentDelivery s order))) = length (sent s) + 1
      \<and> order_id_pl (last (sent (snd (addOrder insert_row sendDocumentDelivery s order)))) = id_row data)
   \<and> (insert_row (snakeCaseData order) = Inl err \<longrightarrow>
      sent (snd (addOrder insert_row sendDocumentDelivery s order)) = sent s)"
  by (simp add: addOrder_def sendProjectDocumentsForOrder_def deliveryPayload_def convertedOrder_def
      Let_def split: option.split)

text \<open>The statement at the concrete state.\<close>

theorem addOrder_notifies_once_witness:
  "map order_id_pl (sent (snd (addOrder (\<lambda>c. Inr ex_row) (\<lambda>p. Some ''smtp down'') ex_state ex_new)))
     = [''o2'']
   \<and> map order_id_pl
        (sent (snd (addOrder (\<lambda>c. Inr ex_row) (\<lambda>p. None :: string option)
                      (ex_state\<lparr> projectDocuments := [] \<rparr>) ex_new)))
     = [''o2'']
   \<and> sent (snd (addOrder (\<lambda>c. Inl ''db down'') (\<lambda>p. None) ex_state ex_new)) = []"
  using addOrder_notifies_once [where insert_row = "\<lambda>c. Inr ex_row" and order = ex_new
      and data = ex_row and sendDocumentDelivery = "\<lambda>p. Some ''smtp down''" and s = ex_state
      and err = "''db down''"]
    addOrder_notifies_once [where insert_row = "\<lambda>c. Inr ex_row" and order = ex_new
      and data = ex_row and sendDocumentDelivery = "\<lambda>p. None :: string option"
      and s = "ex_state\<lparr> projectDocuments := [] \<rparr>" and err = "''db down''"]
    addOrder_notifies_once [where insert_row = "\<lambda>c. Inl ''db down''" and order = ex_new
      and data = ex_row and sendDocumentDelivery = "\<lambda>p. None" and s = ex_state
      and err = "''db down''"]
  by (simp add: ex_state_def ex_row_def deliveryPayload_def convertedOrder_def)

text \<open>
  Claim C3. When the insert succeeds and the notification call throws, \<open>addOrder\<close> still
  returns the new order, the order stays appended to the \<open>orders\<close> state, and the notifier
  has been called once only (no retry).
\<close>

theorem addOrder_swallows_notifier_failure:
  assumes ins: "insert_row (snakeCaseData order) = Inr data"
    and fails: "sendDocumentDelivery (deliveryPayload (projectDocuments s) (convertedOrder data)
                  (customerEmail_new order) (customerName_new order)) = Some e"
  shows "fst (addOrder insert_row sendDocumentDelivery s order) = Inr (convertedOrder data)
       \<and> orders (snd (addOrder insert_row sendDocumentDelivery s order)) = orders s @ [convertedOrder data]
       \<and> convertedOrder data \<in> set (orders (snd (addOrder insert_row sendDocumentDelivery s order)))
       \<and> sent (snd (addOrder insert_row sendDocumentDelivery s order)) =
           sent s @ [deliveryPayload (projectDocuments s) (convertedOrder data)
                       (customerEmail_new order) (customerName_new order)]"
  using ins fails
  by (simp add: addOrder_def sendProjectDocumentsForOrder_def Let_def)

text \<open>The statement at the concrete state.\<close>

theorem addOrder_swallows_notifier_failure_witness:
  "fst (addOrder (\<lambda>c. Inr ex_row) (\<lambda>p. Some ''smtp down'') ex_state ex_new)
     = Inr (convertedOrder ex_row)
   \<and> orders (snd (addOrder (\<lambda>c. Inr ex_row) (\<lambda>p. Some ''smtp down'') ex_state ex_new))
     = [ex_order1, ex_order3, convertedOrder ex_row]
   \<and> length (sent (snd (addOrder (\<lambda>c. Inr ex_row) (\<lambda>p. Some ''smtp down'') ex_state ex_new))) = 1"
  using addOrder_swallows_notifier_failure [where insert_row = "\<lambda>c. Inr ex_row" and order = ex_new
      and data = ex_row and sendDocumentDelivery = "\<lambda>p. Some ''smtp down''" and s = ex_state
      and e = "''smtp down''"]
  by (simp add: ex_state_def)

text \<open>
  Claim C4. The \<open>documents\<close> field of the payload that \<open>sendProjectDocumentsForOrder\<close> sends
  is the full manifest of the order's project: every active document whose \<open>project_id\<close> is
  the order's \<open>projectId\<close>, mapped to its name, url, category, review stage and size. When
  the project has no active document the call is still made, with the empty manifest.
\<close>

theorem notification_manifest:
  "sent (snd (sendProjectDocumentsForOrder sendDocumentDelivery s order email cname)) =
     sent s @ [deliveryPayload (projectDocuments s) order email cname]
   \<and> documents_pl (deliveryPayload docs order email cname) =
       map (\<lambda>doc. \<lparr> name_fd = name_doc doc, url_fd = url_doc doc,
                    category_fd = document_category doc,
                    review_stage_fd = review_stage_doc doc, size_fd = size_doc doc \<rparr>)
         (filter (\<lambda>doc. project_id_doc doc = projectId order \<and> is_active doc) docs)
   \<and> ((\<forall>doc \<in> set (projectDocuments s). \<not> (project_id_doc doc = projectId order \<and> is_active doc)) \<longrightarrow>
        (\<exists>pl. sent (snd (sendProjectDocumentsForOrder sendDocumentDelivery s order email cname)) =
                 sent s @ [pl] \<and> documents_pl pl = []))"
  by (auto simp add: sendProjectDocumentsForOrder_def deliveryPayload_def getProjectDocuments_def
      formatDocument_def Let_def filter_empty_conv split: option.split)

text \<open>The statement at the concrete state.\<close>

theorem notification_manifest_witness:
  "map (map name_fd \<circ> documents_pl)
     (sent (snd (sendProjectDocumentsForOrder (\<lambda>p. None :: string option) ex_state ex_order3
                   ''cy@example.org'' ''Cy'')))
     = [[''a.pdf'', ''b.pdf'']]
   \<and> map documents_pl
     (sent (snd (sendProjectDocumentsForOrder (\<lambda>p. None :: string option)
                   (ex_state\<lparr> projectDocuments := [ex_doc3, ex_doc4] \<rparr>) ex_order3
                   ''cy@example.org'' ''Cy'')))
     = [[]]"
  using notification_manifest [where sendDocumentDelivery = "\<lambda>p. None :: string option"
      and s = ex_state and order = ex_order3 and email = "''cy@example.org''" and cname = "''Cy''"
      and docs = ex_docs]
    notification_manifest [where sendDocumentDelivery = "\<lambda>p. None :: string option"
      and s = "ex_state\<lparr> projectDocuments := [ex_doc3, ex_doc4] \<rparr>" and order = ex_order3
      and email = "''cy@example.org''" and cname = "''Cy''" and docs = "[ex_doc3, ex_doc4]"]
  by (simp add: ex_defs deliveryPayload_def getProjectDocuments_def formatDocument_def)

section \<open>The derived status record\<close>

text \<open>
  Claim C5. Two orders that agree on their lifecycle status and on the number of active
  documents of their projects get the same classification, whatever their other fields and
  whatever the documents are.
\<close>

theorem classification_depends_only_on_status_and_count:
  assumes "status ord1 = status ord2"
    and "length (filter (\<lambda>d. project_id_doc d = projectId ord1 \<and> is_active d) docs1) =
         length (filter (\<lambda>d. project_id_doc d = projectId ord2 \<and> is_active d) docs2)"
  shows "status_ds (documentStatus docs1 ord1) = status_ds (documentStatus docs2 ord2)"
  using assms by (simp add: status_ds_documentStatus getProjectDocuments_def)

text \<open>The statement at the concrete state.\<close>

theorem classification_depends_only_on_status_and_count_witness:
  "status ex_order1 = status ex_order3
   \<and> id_order ex_order1 \<noteq> id_order ex_order3
   \<and> projectId ex_order1 \<noteq> projectId ex_order3
   \<and> status_ds (documentStatus ex_docs ex_order1) = status_ds (documentStatus [ex_doc3, ex_doc2] ex_order3)"
  using classification_depends_only_on_status_and_count
      [of ex_order1 ex_order3 ex_docs "[ex_doc3, ex_doc2]"]
  by (simp add: ex_defs)

text \<open>
  Claim C6. The derived record reports \<open>documentsCount\<close> as the number of active documents
  of the order's project and, for each of the stages \<open>review_1\<close>, \<open>review_2\<close>, \<open>review_3\<close>,
  the number of those documents at that stage; when each of those documents is at one of
  the three stages, the three counts add up to \<open>documentsCount\<close>.
\<close>

theorem document_counts:
  "documentsCount (documentStatus docs order) =
     length (filter (\<lambda>d. project_id_doc d = projectId order \<and> is_active d) docs)
   \<and> review_1 (reviewStages (documentStatus docs order)) =
     length (filter (\<lambda>d. (project_id_doc d = projectId order \<and> is_active d) \<and> review_stage_doc d = ''review_1'') docs)
   \<and> review_2 (reviewStages (documentStatus docs order)) =
     length (filter (\<lambda>d. (project_id_doc d = projectId order \<and> is_active d) \<and> review_stage_doc d = ''review_2'') docs)
   \<and> review_3 (reviewStages (documentStatus docs order)) =
     length (filter (\<lambda>d. (project_id_doc d = projectId order \<and> is_active d) \<and> review_stage_doc d = ''review_3'') docs)
   \<and> ((\<forall>d \<in> set docs. project_id_doc d = projectId order \<and> is_active d \<longrightarrow>
          review_stage_doc d = ''review_1'' \<or> review_stage_doc d = ''review_2''
          \<or> review_stage_doc d = ''review_3'') \<longrightarrow>
        review_1 (reviewStages (documentStatus docs order))
        + review_2 (reviewStages (documentStatus docs order))
        + review_3 (reviewStages (documentStatus docs order))
        = documentsCount (documentStatus docs order))"
proof -
  let ?xs = "getProjectDocuments docs (projectId order)"
  have counts: "documentsCount (documentStatus docs order) = length ?xs"
    "review_1 (reviewStages (documentStatus docs order)) =
       length (filter (\<lambda>doc. review_stage_doc doc = ''review_1'') ?xs)"
    "review_2 (reviewStages (documentStatus docs order)) =
       length (filter (\<lambda>doc. review_stage_doc doc = ''review_2'') ?xs)"
    "review_3 (reviewStages (documentStatus docs order)) =
       length (filter (\<lambda>doc. review_stage_doc doc = ''review_3'') ?xs)"
    by (simp_all add: documentStatus_def Let_def)
  have total: "(\<forall>d \<in> set docs. project_id_doc d = projectId order \<and> is_active d \<longrightarrow>
          review_stage_doc d = ''review_1'' \<or> review_stage_doc d = ''review_2''
          \<or> review_stage_doc d = ''review_3'') \<Longrightarrow>
        length (filter (\<lambda>doc. review_stage_doc doc = ''review_1'') ?xs)
        + length (filter (\<lambda>doc. review_stage_doc doc = ''review_2'') ?xs)
        + length (filter (\<lambda>doc. review_stage_doc doc = ''review_3'') ?xs) = length ?xs"
    by (rule stage_counts_sum) (simp add: getProjectDocuments_def)
  show ?thesis
    unfolding counts using total
    by (simp add: getProjectDocuments_def conj_commute conj_left_commute)
qed

text \<open>The statement at the concrete state.\<close>

theorem document_counts_witness:
  "documentsCount (documentStatus ex_docs ex_order3) = 2
   \<and> review_1 (reviewStages (documentStatus ex_docs ex_order3)) = 1
   \<and> review_2 (reviewStages (documentStatus ex_docs ex_order3)) = 1
   \<and> review_3 (reviewStages (documentStatus ex_docs ex_order3)) = 0
   \<and> review_1 (reviewStages (documentStatus ex_docs ex_order3))
     + review_2 (reviewStages (documentStatus ex_docs ex_order3))
     + review_3 (reviewStages (documentStatus ex_docs ex_order3))
     = documentsCount (documentStatus ex_docs ex_order3)"
  using document_counts [of ex_docs ex_order3]
  by (simp add: ex_defs)

text \<open>
  Claim C7. For every order status and every document count the classifier gives exactly one
  of \<open>delivered\<close>, \<open>pending\<close>, \<open>no-documents\<close>, \<open>partial\<close>: each state is assigned exactly
  under its defining condition, no two of the four conditions hold together, and one of them
  always holds.
\<close>

theorem classification_exactly_one:
  "let n = length (filter (\<lambda>d. project_id_doc d = projectId order \<and> is_active d) docs);
       c = status_ds (documentStatus docs order);
       is_no_documents = (n = 0);
       is_delivered = (status order = ''completed'' \<and> n > 0);
       is_pending = (n > 0 \<and> status order = ''pending'');
       is_partial = (n > 0 \<and> status order \<noteq> ''completed'' \<and> status order \<noteq> ''pending'')
   in ((c = no_documents) = is_no_documents) \<and> ((c = delivered) = is_delivered)
      \<and> ((c = pending) = is_pending) \<and> ((c = partial) = is_partial)
      \<and> \<not> (is_no_documents \<and> is_delivered) \<and> \<not> (is_no_documents \<and> is_pending)
      \<and> \<not> (is_no_documents \<and> is_partial) \<and> \<not> (is_delivered \<and> is_pending)
      \<and> \<not> (is_delivered \<and> is_partial) \<and> \<not> (is_pending \<and> is_partial)
      \<and> (is_no_documents \<or> is_delivered \<or> is_pending \<or> is_partial)"
  by (auto simp add: status_ds_documentStatus getProjectDocuments_def spec_classification_def Let_def)

text \<open>The statement at the concrete state.\<close>

theorem classification_exactly_one_witness:
  "status_ds (documentStatus ex_docs ex_order1) = delivered
   \<and> status_ds (documentStatus ex_docs ex_order1) \<noteq> pending
   \<and> status_ds (documentStatus ex_docs ex_order1) \<noteq> no_documents
   \<and> status_ds (documentStatus ex_docs ex_order1) \<noteq> partial"
  using classification_exactly_one [of ex_order1 ex_docs]
  by (simp add: ex_defs Let_def)

section \<open>Active documents only\<close>

text \<open>
  Claim C8. \<open>getProjectDocuments\<close> returns exactly the documents of the state whose
  \<open>project_id\<close> is the given one and whose \<open>is_active\<close> flag is set, each as often as the
  state holds it. An inactive document therefore changes neither the derived statuses nor a
  notification manifest, and a document removed by \<open>deleteProjectDocument\<close> is no longer
  returned.
\<close>

theorem getProjectDocuments_active_only:
  "(d \<in> set (getProjectDocuments docs pid) \<longleftrightarrow> d \<in> set docs \<and> project_id_doc d = pid \<and> is_active d)
   \<and> count_list (getProjectDocuments docs pid) d =
       (if project_id_doc d = pid \<and> is_active d then count_list docs d else 0)
   \<and> (\<not> is_active d \<longrightarrow>
        getProjectDocuments (xs @ d # ys) pid = getProjectDocuments (xs @ ys) pid
        \<and> documentStatuses os (xs @ d # ys) = documentStatuses os (xs @ ys)
        \<and> deliveryPayload (xs @ d # ys) order email cname = deliveryPayload (xs @ ys) order email cname)
   \<and> (deactivate_row did = None \<longrightarrow>
        (\<forall>doc \<in> set (getProjectDocuments (projectDocuments (deleteProjectDocument deactivate_row s did)) pid).
           id_doc doc \<noteq> did))"
proof -
  have mem: "d \<in> set (getProjectDocuments docs pid) \<longleftrightarrow> d \<in> set docs \<and> project_id_doc d = pid \<and> is_active d"
    by (auto simp add: getProjectDocuments_def)
  have cnt: "count_list (getProjectDocuments docs pid) d =
       (if project_id_doc d = pid \<and> is_active d then count_list docs d else 0)"
    by (simp add: getProjectDocuments_def count_list_filter_if)
  have inactive: "documentStatuses os (xs @ d # ys) = documentStatuses os (xs @ ys)
        \<and> deliveryPayload (xs @ d # ys) order email cname = deliveryPayload (xs @ ys) order email cname"
    if "\<not> is_active d"
    using that
    by (simp add: documentStatuses_def documentStatus_def deliveryPayload_def
        getProjectDocuments_drop_inactive)
  have deleted: "\<forall>doc \<in> set (getProjectDocuments (projectDocuments (deleteProjectDocument deactivate_row s did)) pid).
           id_doc doc \<noteq> did" if "deactivate_row did = None"
    using that by (simp add: deleteProjectDocument_def getProjectDocuments_def)
  show ?thesis
    using mem cnt inactive deleted getProjectDocuments_drop_inactive [of d xs ys pid] by blast
qed

text \<open>The statement at the concrete state.\<close>

theorem getProjectDocuments_active_only_witness:
  "getProjectDocuments ex_docs ''p1'' = [ex_doc1, ex_doc2]
   \<and> \<not> is_active ex_doc3
   \<and> getProjectDocuments [ex_doc1, ex_doc2, ex_doc4] ''p1'' = [ex_doc1, ex_doc2]
   \<and> documentStatuses [ex_order3] ex_docs = documentStatuses [ex_order3] [ex_doc1, ex_doc2, ex_doc4]
   \<and> map id_doc (getProjectDocuments
        (projectDocuments (deleteProjectDocument (\<lambda>i. None :: string option) ex_state ''d1'')) ''p1'')
      = [''d2'']"
  using getProjectDocuments_active_only [where d = ex_doc3 and docs = ex_docs and pid = "''p1''"
      and xs = "[ex_doc1, ex_doc2]" and ys = "[ex_doc4]" and os = "[ex_order3]" and order = ex_order3
      and email = "''cy@example.org''" and cname = "''Cy''"
      and deactivate_row = "\<lambda>i. None :: string option" and did = "''d1''" and s = ex_state]
  by (simp add: ex_defs getProjectDocuments_def deleteProjectDocument_def)

section \<open>Sending the documents of a stored order\<close>

text \<open>
  Claim C9. \<open>sendProjectDocuments\<close> throws the "Order not found" error exactly when no order
  of the state has the given id, and then calls nothing. When the order exists it behaves as
  \<open>sendProjectDocumentsForOrder\<close> on the order found: the payload sent carries the full
  active-document manifest of that order's project, and for an order just created by
  \<open>addOrder\<close> it is the payload the order-creation notifier sent.
\<close>

theorem sendProjectDocuments_order_lookup:
  "(fst (sendProjectDocuments sendDocumentDelivery s oid email cname) = Inl OrderNotFound
      \<longleftrightarrow> \<not> (\<exists>ord \<in> set (orders s). id_order ord = oid))
   \<and> (find (\<lambda>ord. id_order ord = oid) (orders s) = None \<longrightarrow>
        sent (snd (sendProjectDocuments sendDocumentDelivery s oid email cname)) = sent s)
   \<and> (find (\<lambda>ord. id_order ord = oid) (orders s) = Some order \<longrightarrow>
        sendProjectDocuments sendDocumentDelivery s oid email cname =
          sendProjectDocumentsForOrder sendDocumentDelivery s order email cname
        \<and> sent (snd (sendProjectDocuments sendDocumentDelivery s oid email cname)) =
            sent s @ [deliveryPayload (projectDocuments s) order email cname]
        \<and> documents_pl (last (sent (snd (sendProjectDocuments sendDocumentDelivery s oid email cname)))) =
            map formatDocument
              (filter (\<lambda>doc. project_id_doc doc = projectId order \<and> is_active doc) (projectDocuments s)))
   \<and> (insert_row (snakeCaseData new) = Inr data \<and> (\<forall>ord \<in> set (orders s). id_order ord \<noteq> id_row data) \<longrightarrow>
        (let s1 = snd (addOrder insert_row sendDocumentDelivery s new)
         in sent (snd (sendProjectDocuments sendDocumentDelivery s1 (id_row data)
                         (customerEmail_new new) (customerName_new new))) =
              sent s1 @ [last (sent s1)]))"
proof -
  have iff: "fst (sendProjectDocuments sendDocumentDelivery s oid email cname) = Inl OrderNotFound
      \<longleftrightarrow> \<not> (\<exists>ord \<in> set (orders s). id_order ord = oid)"
  proof (cases "find (\<lambda>ord. id_order ord = oid) (orders s)")
    case None
    then have "\<not> (\<exists>ord \<in> set (orders s). id_order ord = oid)"
      by (auto simp add: find_None_iff)
    with None show ?thesis
      by (simp add: sendProjectDocuments_def)
  next
    case (Some found)
    then have "find (\<lambda>ord. id_order ord = oid) (orders s) \<noteq> None"
      by simp
    then have "\<exists>ord \<in> set (orders s). id_order ord = oid"
      by (auto simp add: find_None_iff)
    with Some show ?thesis
      by (simp add: sendProjectDocuments_def sendProjectDocumentsForOrder_def Let_def
          split: option.split)
  qed
  have none: "find (\<lambda>ord. id_order ord = oid) (orders s) = None \<longrightarrow>
        sent (snd (sendProjectDocuments sendDocumentDelivery s oid email cname)) = sent s"
    by (simp add: sendProjectDocuments_def)
  have some: "find (\<lambda>ord. id_order ord = oid) (orders s) = Some order \<longrightarrow>
        sendProjectDocuments sendDocumentDelivery s oid email cname =
          sendProjectDocumentsForOrder sendDocumentDelivery s order email cname
        \<and> sent (snd (sendProjectDocuments sendDocumentDelivery s oid email cname)) =
            sent s @ [deliveryPayload (projectDocuments s) order email cname]
        \<and> documents_pl (last (sent (snd (sendProjectDocuments sendDocumentDelivery s oid email cname)))) =
            map formatDocument
              (filter (\<lambda>doc. project_id_doc doc = projectId order \<and> is_active doc) (projectDocuments s))"
  proof
    assume found: "find (\<lambda>ord. id_order ord = oid) (orders s) = Some order"
    show "sendProjectDocuments sendDocumentDelivery s oid email cname =
          sendProjectDocumentsForOrder sendDocumentDelivery s order email cname
        \<and> sent (snd (sendProjectDocuments sendDocumentDelivery s oid email cname)) =
            sent s @ [deliveryPayload (projectDocuments s) order email cname]
        \<and> documents_pl (last (sent (snd (sendProjectDocuments sendDocumentDelivery s oid email cname)))) =
            map formatDocument
              (filter (\<lambda>doc. project_id_doc doc = projectId order \<and> is_active doc) (projectDocuments s))"
      unfolding sendProjectDocuments_found [OF found]
      by (simp add: sendProjectDocumentsForOrder_sent deliveryPayload_def getProjectDocuments_def)
  qed
  have again: "insert_row (snakeCaseData new) = Inr data
        \<and> (\<forall>ord \<in> set (orders s). id_order ord \<noteq> id_row data) \<longrightarrow>
        (let s1 = snd (addOrder insert_row sendDocumentDelivery s new)
         in sent (snd (sendProjectDocuments sendDocumentDelivery s1 (id_row data)
                         (customerEmail_new new) (customerName_new new))) =
              sent s1 @ [last (sent s1)])"
  proof (intro impI, elim conjE)
    assume ins: "insert_row (snakeCaseData new) = Inr data"
      and fresh: "\<forall>ord \<in> set (orders s). id_order ord \<noteq> id_row data"
    define s1 where "s1 = snd (addOrder insert_row sendDocumentDelivery s new)"
    have s1: "orders s1 = orders s @ [convertedOrder data]"
      "projectDocuments s1 = projectDocuments s"
      "sent s1 = sent s @ [deliveryPayload (projectDocuments s) (convertedOrder data)
                            (customerEmail_new new) (customerName_new new)]"
      unfolding s1_def
      by (simp_all add: addOrder_inserted_state
            [where insert_row = insert_row and new = new and data = data, OF ins])
    have "id_order (convertedOrder data) = id_row data"
      by (simp add: convertedOrder_def)
    with fresh have "find (\<lambda>ord. id_order ord = id_row data) (orders s1) = Some (convertedOrder data)"
      unfolding s1(1) by (intro find_append_fresh) simp_all
    then have "sendProjectDocuments sendDocumentDelivery s1 (id_row data)
                 (customerEmail_new new) (customerName_new new) =
               sendProjectDocumentsForOrder sendDocumentDelivery s1 (convertedOrder data)
                 (customerEmail_new new) (customerName_new new)"
      by (rule sendProjectDocuments_found)
    then have "sent (snd (sendProjectDocuments sendDocumentDelivery s1 (id_row data)
                         (customerEmail_new new) (customerName_new new))) =
              sent s1 @ [last (sent s1)]"
      by (simp add: sendProjectDocumentsForOrder_sent s1(2,3))
    then show "let s1 = snd (addOrder insert_row sendDocumentDelivery s new)
         in sent (snd (sendProjectDocuments sendDocumentDelivery s1 (id_row data)
                         (customerEmail_new new) (customerName_new new))) =
              sent s1 @ [last (sent s1)]"
      unfolding s1_def Let_def .
  qed
  show ?thesis
    by (intro conjI) (fact iff, fact none, fact some, fact again)
qed

text \<open>The statement at the concrete state.\<close>

theorem sendProjectDocuments_order_lookup_witness:
  "fst (sendProjectDocuments (\<lambda>p. None :: string option) ex_state ''o9'' ''x@example.org'' ''X'')
     = Inl OrderNotFound
   \<and> fst (sendProjectDocuments (\<lambda>p. Some ''smtp down'') ex_state ''o3'' ''cy@example.org'' ''Cy'')
     \<noteq> Inl OrderNotFound
   \<and> sent (snd (sendProjectDocuments (\<lambda>p. None :: string option) ex_state ''o3'' ''cy@example.org'' ''Cy''))
     = [deliveryPayload ex_docs ex_order3 ''cy@example.org'' ''Cy'']
   \<and> map order_id_pl
        (sent (snd (sendProjectDocuments (\<lambda>p. None :: string option)
                      (snd (addOrder (\<lambda>c. Inr ex_row) (\<lambda>p. None) ex_state ex_new))
                      ''o2'' ''ada@example.org'' ''Ada'')))
     = [''o2'', ''o2'']"
  using sendProjectDocuments_order_lookup [where sendDocumentDelivery = "\<lambda>p. None :: string option"
      and s = ex_state and oid = "''o9''" and email = "''x@example.org''" and cname = "''X''"
      and order = ex_order3 and insert_row = "\<lambda>c. Inr ex_row" and new = ex_new and data = ex_row]
    sendProjectDocuments_order_lookup [where sendDocumentDelivery = "\<lambda>p. Some ''smtp down''"
      and s = ex_state and oid = "''o3''" and email = "''cy@example.org''" and cname = "''Cy''"
      and order = ex_order3 and insert_row = "\<lambda>c. Inr ex_row" and new = ex_new and data = ex_row]
    sendProjectDocuments_order_lookup [where sendDocumentDelivery = "\<lambda>p. None :: string option"
      and s = ex_state and oid = "''o3''" and email = "''cy@example.org''" and cname = "''Cy''"
      and order = ex_order3 and insert_row = "\<lambda>c. Inr ex_row" and new = ex_new and data = ex_row]
  by (simp add: ex_defs model_defs Let_def)

section \<open>Updating the status of an order\<close>

text \<open>
  Claim C10. After a successful \<open>updateOrderStatus\<close> the state holds the same orders in the
  same positions; an order with the given id differs from what it was in its \<open>status\<close> field
  only (its \<open>updated_at\<close> stays as it was), and every other order is unchanged. Documents
  and the notifier trace are untouched.
\<close>

theorem updateOrderStatus_frame:
  assumes "update_row oid new_status = None"
  shows "length (orders (updateOrderStatus update_row s oid new_status)) = length (orders s)
     \<and> (\<forall>i < length (orders s).
          (id_order (orders s ! i) = oid \<longrightarrow>
             orders (updateOrderStatus update_row s oid new_status) ! i
               = (orders s ! i)\<lparr> status := new_status \<rparr>
             \<and> status (orders (updateOrderStatus update_row s oid new_status) ! i) = new_status
             \<and> updated_at (orders (updateOrderStatus update_row s oid new_status) ! i)
                 = updated_at (orders s ! i))
          \<and> (id_order (orders s ! i) \<noteq> oid \<longrightarrow>
             orders (updateOrderStatus update_row s oid new_status) ! i = orders s ! i))
     \<and> projectDocuments (updateOrderStatus update_row s oid new_status) = projectDocuments s
     \<and> sent (updateOrderStatus update_row s oid new_status) = sent s"
  using assms by (simp add: updateOrderStatus_def)

text \<open>The statement at the concrete state.\<close>

theorem updateOrderStatus_frame_witness:
  "orders (updateOrderStatus (\<lambda>i st. None :: string option) ex_state ''o3'' ''pending'')
     = [ex_order1, ex_order3\<lparr> status := ''pending'' \<rparr>]
   \<and> map updated_at (orders (updateOrderStatus (\<lambda>i st. None :: string option) ex_state ''o3'' ''pending''))
     = map updated_at (orders ex_state)"
  using updateOrderStatus_frame [where update_row = "\<lambda>i st. None :: string option"
      and oid = "''o3''" and new_status = "''pending''" and s = ex_state]
  by (simp add: ex_defs updateOrderStatus_def)

end
